theory Spec2Isabelle
  imports Main "HOL-Library.List_Lexorder"
begin

section \<open>The metrics gateway (app.py)\<close>

text \<open>
  The program is a Flask application of four routes. Three of them return the JSON
  document of a file under \<^verbatim>\<open>results/logs\<close>, the fourth renders a template:
  \<^verbatim>\<open>
  BASE_DIR = os.path.abspath(os.path.dirname(__file__))
  LOG_DIR = os.path.join(BASE_DIR, "results", "logs")

  def load_json(filename):
      path = os.path.join(LOG_DIR, filename)
      if not os.path.exists(path):
          return {}
      with open(path, "r") as f:
          return json.load(f)

  @app.route("/")
  def index():
      return render_template("index.html")

  @app.route("/api/serial")
  def serial_metrics():
      return jsonify(load_json("serial_metrics.json"))
  \<close>
  (and the same for \<^verbatim>\<open>/api/parallel\<close> and \<^verbatim>\<open>/api/compare\<close>). What it
  calls is modelled first: Python's strings and exceptions, \<^verbatim>\<open>json.load\<close>,
  \<^verbatim>\<open>json.dumps\<close>, the files it reads, and the part of Flask that turns a view's
  result into a reply. Its own functions follow under the heading app.py, and the
  properties of the routes after them.
\<close>

subsection \<open>Python strings and exceptions\<close>

text \<open>
  A Python \<^verbatim>\<open>str\<close> is a sequence of code points. An ASCII literal is written
  \<open>str ''...''\<close>; a backslash is the code point 92, a double quote 34.
\<close>

type_synonym pystr = "nat list"

definition str :: "string \<Rightarrow> pystr" where
  "str cs = map of_char cs"

text \<open>
  The exceptions that can leave a view of this program. \<open>StopIteration\<close> is internal
  to the JSON scanner, which turns it into \<open>JSONDecodeError\<close> before it returns.
\<close>

datatype exn =
    StopIteration
  | JSONDecodeError
  | FileNotFoundError
  | IsADirectoryError
  | PermissionError
  | UnicodeDecodeError
  | TemplateNotFound
  | TemplateError

text \<open>
  The values \<^verbatim>\<open>json.load\<close> builds: \<^verbatim>\<open>None\<close>, \<^verbatim>\<open>bool\<close>,
  \<^verbatim>\<open>int\<close> (unbounded), \<^verbatim>\<open>float\<close>, \<^verbatim>\<open>str\<close>, \<^verbatim>\<open>list\<close> and
  \<^verbatim>\<open>dict\<close>. A dict keeps its keys in insertion order and holds each key once, so
  it is an association list built with \<open>dict_setitem\<close> only. Binary floating point is
  not modelled: \<open>'f\<close> stands for \<^verbatim>\<open>float\<close>, and the three operations the
  program reaches on it are fields of the runtime below.
\<close>

datatype 'f pyobj =
    PyNone
  | PyBool bool
  | PyInt int
  | PyFloat 'f
  | PyStr pystr
  | PyList "'f pyobj list"
  | PyDict "(pystr \<times> 'f pyobj) list"

fun dict_setitem :: "pystr \<Rightarrow> 'v \<Rightarrow> (pystr \<times> 'v) list \<Rightarrow> (pystr \<times> 'v) list" where
  "dict_setitem k v [] = [(k, v)]"
| "dict_setitem k v ((k', v') # d) =
     (if k' = k then (k, v) # d else (k', v') # dict_setitem k v d)"

definition py_dict :: "(pystr \<times> 'v) list \<Rightarrow> (pystr \<times> 'v) list" where
  "py_dict pairs = foldl (\<lambda>d (k, v). dict_setitem k v d) [] pairs"

text \<open>
  What app.py leaves to its installation. \<open>parse_float\<close> and \<open>parse_constant\<close>
  are the decoder's hooks of these names (\<^verbatim>\<open>float\<close> and the table of
  \<^verbatim>\<open>NaN\<close>, \<^verbatim>\<open>Infinity\<close>, \<^verbatim>\<open>-Infinity\<close>), \<open>floatstr\<close> is the
  encoder's rendering of a float. \<open>indent\<close>, the separators, \<open>sort_keys\<close> and
  \<open>ensure_ascii\<close> are the arguments with which Flask's \<^verbatim>\<open>jsonify\<close> calls
  \<^verbatim>\<open>json.dumps\<close>; they depend on the Flask release and on its debug flag.
  \<open>jinja_render\<close> is Jinja's rendering of a template source in the context of a
  request, with no further parameters, as \<^verbatim>\<open>index\<close> asks for it.
\<close>

record 'f runtime =
  parse_float :: "pystr \<Rightarrow> 'f"
  parse_constant :: "pystr \<Rightarrow> 'f"
  floatstr :: "'f \<Rightarrow> pystr"
  indent :: "nat option"
  item_separator :: pystr
  key_separator :: pystr
  sort_keys :: bool
  ensure_ascii :: bool
  jinja_render :: "pystr \<Rightarrow> exn + pystr"

subsection \<open>json.load: the decoder\<close>

text \<open>
  The decoder follows \<^verbatim>\<open>json/decoder.py\<close> and \<^verbatim>\<open>json/scanner.py\<close>, with
  the index into the document replaced by the rest of the document. Every
  \<^verbatim>\<open>JSONDecodeError\<close> is one value: its message and position are dropped. Digits
  and \<^verbatim>\<open>\uXXXX\<close> escapes are read as CPython's accelerated scanner reads them
  (ASCII digits, four hexadecimal digits). The interpreter's resource limits (recursion
  depth, memory, the length limit of integer conversion) are left out.
\<close>

definition is_ws :: "nat \<Rightarrow> bool" where
  \<comment> \<open>\<^verbatim>\<open>WHITESPACE_STR = ' \t\n\r'\<close>\<close>
  "is_ws c = (c = 32 \<or> c = 9 \<or> c = 10 \<or> c = 13)"

definition skip_ws :: "pystr \<Rightarrow> pystr" where
  "skip_ws s = dropWhile is_ws s"

definition is_digit :: "nat \<Rightarrow> bool" where
  "is_digit c = (48 \<le> c \<and> c \<le> 57)"

definition hexval :: "nat \<Rightarrow> nat option" where
  "hexval c =
     (if 48 \<le> c \<and> c \<le> 57 then Some (c - 48)
      else if 97 \<le> c \<and> c \<le> 102 then Some (c - 87)
      else if 65 \<le> c \<and> c \<le> 70 then Some (c - 55)
      else None)"

fun decode_uXXXX :: "pystr \<Rightarrow> nat option" where
  "decode_uXXXX [a, b, c, d] =
     (case (hexval a, hexval b, hexval c, hexval d) of
        (Some x, Some y, Some z, Some w) \<Rightarrow> Some (((x * 16 + y) * 16 + z) * 16 + w)
      | _ \<Rightarrow> None)"
| "decode_uXXXX _ = None"

definition BACKSLASH :: "nat \<Rightarrow> nat option" where
  \<comment> \<open>the escapes \<^verbatim>\<open>\" \\ \/ \b \f \n \r \t\<close>\<close>
  "BACKSLASH esc =
     (if esc = 34 then Some 34
      else if esc = 92 then Some 92
      else if esc = 47 then Some 47
      else if esc = 98 then Some 8
      else if esc = 102 then Some 12
      else if esc = 110 then Some 10
      else if esc = 114 then Some 13
      else if esc = 116 then Some 9
      else None)"

text \<open>
  \<^verbatim>\<open>scanstring\<close> (strict): the input starts after the opening quote; the result is
  the decoded string and what follows the closing quote. A high surrogate escape followed
  by a low surrogate escape is one code point.
\<close>

fun scanstring :: "pystr \<Rightarrow> pystr \<Rightarrow> exn + (pystr \<times> pystr)" where
  "scanstring chunks [] = Inl JSONDecodeError"
| "scanstring chunks (c # cs) =
     (if c = 34 then Inr (chunks, cs)
      else if c = 92 then
        (case cs of
           [] \<Rightarrow> Inl JSONDecodeError
         | esc # es \<Rightarrow>
             if esc \<noteq> 117 then
               (case BACKSLASH esc of
                  None \<Rightarrow> Inl JSONDecodeError
                | Some ch \<Rightarrow> scanstring (chunks @ [ch]) es)
             else
               (case decode_uXXXX (take 4 es) of
                  None \<Rightarrow> Inl JSONDecodeError
                | Some uni \<Rightarrow>
                    if 55296 \<le> uni \<and> uni \<le> 56319 \<and> take 2 (drop 4 es) = [92, 117] then
                      (case decode_uXXXX (take 4 (drop 6 es)) of
                         None \<Rightarrow> Inl JSONDecodeError
                       | Some uni2 \<Rightarrow>
                           if 56320 \<le> uni2 \<and> uni2 \<le> 57343 then
                             scanstring
                               (chunks @ [65536 + ((uni - 55296) * 1024 + (uni2 - 56320))])
                               (drop 10 es)
                           else scanstring (chunks @ [uni]) (drop 4 es))
                    else scanstring (chunks @ [uni]) (drop 4 es)))
      else if c \<le> 31 then Inl JSONDecodeError
      else scanstring (chunks @ [c]) cs)"

text \<open>
  \<^verbatim>\<open>NUMBER_RE = (-?(?:0|[1-9]\d*))(\.\d+)?([eE][-+]?\d+)?\<close>: the three groups and
  the rest of the input; an absent group is the empty string.
\<close>

definition match_digits :: "pystr \<Rightarrow> pystr \<times> pystr" where
  "match_digits s = (takeWhile is_digit s, dropWhile is_digit s)"

definition match_integer :: "pystr \<Rightarrow> (pystr \<times> pystr) option" where
  "match_integer s =
     (let sign = (if take 1 s = [45] then [45] else []);
          s1 = drop (length sign) s
      in case s1 of
           [] \<Rightarrow> None
         | d # ds \<Rightarrow>
             if d = 48 then Some (sign @ [48], ds)
             else if 49 \<le> d \<and> d \<le> 57 then
               Some (sign @ d # fst (match_digits ds), snd (match_digits ds))
             else None)"

definition match_frac :: "pystr \<Rightarrow> pystr \<times> pystr" where
  "match_frac s =
     (case s of
        p # d # ds \<Rightarrow>
          if p = 46 \<and> is_digit d then
            (p # fst (match_digits (d # ds)), snd (match_digits (d # ds)))
          else ([], s)
      | _ \<Rightarrow> ([], s))"

definition match_exp :: "pystr \<Rightarrow> pystr \<times> pystr" where
  "match_exp s =
     (case s of
        [] \<Rightarrow> ([], s)
      | e # s1 \<Rightarrow>
          if e = 101 \<or> e = 69 then
            (let sign = (if take 1 s1 = [45] \<or> take 1 s1 = [43] then take 1 s1 else []);
                 s2 = drop (length sign) s1
             in if fst (match_digits s2) = [] then ([], s)
                else (e # sign @ fst (match_digits s2), snd (match_digits s2)))
          else ([], s))"

definition match_number :: "pystr \<Rightarrow> (pystr \<times> pystr \<times> pystr \<times> pystr) option" where
  "match_number s =
     (case match_integer s of
        None \<Rightarrow> None
      | Some (integer, s1) \<Rightarrow>
          (let (frac, s2) = match_frac s1; (exp, s3) = match_exp s2
           in Some (integer, frac, exp, s3)))"

definition digits_value :: "pystr \<Rightarrow> int" where
  "digits_value ds = foldl (\<lambda>n d. n * 10 + (int d - 48)) 0 ds"

definition py_int :: "pystr \<Rightarrow> int" where
  \<comment> \<open>\<^verbatim>\<open>int(integer)\<close> on the first group of the number pattern\<close>
  "py_int s = (if take 1 s = [45] then - digits_value (drop 1 s) else digits_value s)"

definition expecting_value :: "exn \<Rightarrow> exn" where
  \<comment> \<open>\<^verbatim>\<open>except StopIteration as err: raise JSONDecodeError("Expecting value", ...)\<close>\<close>
  "expecting_value e = (if e = StopIteration then JSONDecodeError else e)"

text \<open>
  \<^verbatim>\<open>scan_once\<close>, \<^verbatim>\<open>JSONArray\<close> and \<^verbatim>\<open>JSONObject\<close>; the two
  \<^verbatim>\<open>while True\<close> loops are \<open>array_loop\<close> and \<open>object_loop\<close>. \<open>JSONArray\<close> and
  \<open>JSONObject\<close> start after the opening bracket, \<open>object_loop\<close> after the opening
  quote of a key.
\<close>

function scan_once :: "'f runtime \<Rightarrow> pystr \<Rightarrow> exn + ('f pyobj \<times> pystr)"
  and JSONArray :: "'f runtime \<Rightarrow> pystr \<Rightarrow> exn + ('f pyobj \<times> pystr)"
  and array_loop :: "'f runtime \<Rightarrow> 'f pyobj list \<Rightarrow> pystr \<Rightarrow> exn + ('f pyobj \<times> pystr)"
  and JSONObject :: "'f runtime \<Rightarrow> pystr \<Rightarrow> exn + ('f pyobj \<times> pystr)"
  and object_loop ::
    "'f runtime \<Rightarrow> (pystr \<times> 'f pyobj) list \<Rightarrow> pystr \<Rightarrow> exn + ('f pyobj \<times> pystr)"
where
  "scan_once R s =
     (case s of
        [] \<Rightarrow> Inl StopIteration
      | nextchar # s' \<Rightarrow>
          if nextchar = 34 then
            (case scanstring [] s' of
               Inl e \<Rightarrow> Inl e
             | Inr (chunks, r) \<Rightarrow> Inr (PyStr chunks, r))
          else if nextchar = 123 then JSONObject R s'
          else if nextchar = 91 then JSONArray R s'
          else if nextchar = 110 \<and> take 4 s = str ''null'' then Inr (PyNone, drop 4 s)
          else if nextchar = 116 \<and> take 4 s = str ''true'' then Inr (PyBool True, drop 4 s)
          else if nextchar = 102 \<and> take 5 s = str ''false'' then Inr (PyBool False, drop 5 s)
          else
            (case match_number s of
               Some (integer, frac, exp, r) \<Rightarrow>
                 if frac \<noteq> [] \<or> exp \<noteq> [] then
                   Inr (PyFloat (parse_float R (integer @ frac @ exp)), r)
                 else Inr (PyInt (py_int integer), r)
             | None \<Rightarrow>
                 if nextchar = 78 \<and> take 3 s = str ''NaN'' then
                   Inr (PyFloat (parse_constant R (str ''NaN'')), drop 3 s)
                 else if nextchar = 73 \<and> take 8 s = str ''Infinity'' then
                   Inr (PyFloat (parse_constant R (str ''Infinity'')), drop 8 s)
                 else if nextchar = 45 \<and> take 9 s = str ''-Infinity'' then
                   Inr (PyFloat (parse_constant R (str ''-Infinity'')), drop 9 s)
                 else Inl StopIteration))"
| "JSONArray R s =
     (case skip_ws s of
        [] \<Rightarrow> array_loop R [] []
      | nextchar # r \<Rightarrow>
          if nextchar = 93 then Inr (PyList [], r) else array_loop R [] (nextchar # r))"
| "array_loop R values s =
     (case scan_once R s of
        Inl e \<Rightarrow> Inl (expecting_value e)
      | Inr (v, r) \<Rightarrow>
          (case skip_ws r of
             [] \<Rightarrow> Inl JSONDecodeError
           | nextchar # r' \<Rightarrow>
               if nextchar = 93 then Inr (PyList (values @ [v]), r')
               else if nextchar \<noteq> 44 then Inl JSONDecodeError
               else array_loop R (values @ [v]) (skip_ws r')))"
| "JSONObject R s =
     (case skip_ws s of
        [] \<Rightarrow> Inl JSONDecodeError
      | nextchar # r \<Rightarrow>
          if nextchar = 125 then Inr (PyDict [], r)
          else if nextchar \<noteq> 34 then Inl JSONDecodeError
          else object_loop R [] r)"
| "object_loop R pairs s =
     (case scanstring [] s of
        Inl e \<Rightarrow> Inl e
      | Inr (key, r) \<Rightarrow>
          (case skip_ws r of
             [] \<Rightarrow> Inl JSONDecodeError
           | colon # r1 \<Rightarrow>
               if colon \<noteq> 58 then Inl JSONDecodeError
               else
                 (case scan_once R (skip_ws r1) of
                    Inl e \<Rightarrow> Inl (expecting_value e)
                  | Inr (v, r2) \<Rightarrow>
                      (case skip_ws r2 of
                         [] \<Rightarrow> Inl JSONDecodeError
                       | nextchar # r3 \<Rightarrow>
                           if nextchar = 125 then
                             Inr (PyDict (py_dict (pairs @ [(key, v)])), r3)
                           else if nextchar \<noteq> 44 then Inl JSONDecodeError
                           else
                             (case skip_ws r3 of
                                [] \<Rightarrow> Inl JSONDecodeError
                              | quote # r4 \<Rightarrow>
                                  if quote \<noteq> 34 then Inl JSONDecodeError
                                  else object_loop R (pairs @ [(key, v)]) r4)))))"
  by pat_completeness auto

text \<open>
  The scanner terminates because every value it returns has consumed input. This is
  proved on the domain of the functions first, since \<open>array_loop\<close> and \<open>object_loop\<close>
  continue on the rest that \<open>scan_once\<close> returned.
\<close>

lemma length_skip_ws: "length (skip_ws s) \<le> length s"
  by (simp add: skip_ws_def length_dropWhile_le)

lemma skip_ws_Cons_length: "skip_ws s = c # r \<Longrightarrow> length r < length s"
  using length_skip_ws [of s] by simp

lemma scanstring_rest: "scanstring chunks s = Inr (c, r) \<Longrightarrow> length r < length s"
proof (induction chunks s rule: scanstring.induct)
  case (1 chunks)
  then show ?case by simp
next
  case (2 chunks c cs)
  show ?case
  proof (cases "c = 34")
    case True
    with 2(6) show ?thesis by simp
  next
    case False
    note not_quote = this
    show ?thesis
    proof (cases "c = 92")
      case False
      with not_quote 2(5,6) show ?thesis by (auto split: if_splits)
    next
      case True
      then obtain esc es where cs: "cs = esc # es"
        using 2(6) by (cases cs) auto
      show ?thesis
      proof (cases "esc = 117")
        case False
        with True cs 2(1) [OF not_quote True cs] 2(6) show ?thesis
          by (auto split: option.splits)
      next
        case u: True
        have "length r < length (drop 4 es) \<or> length r < length (drop 10 es)"
          using True cs u 2(2-4) [OF not_quote True cs] 2(6)
          by (auto split: option.splits if_splits)
        then show ?thesis using cs by auto
      qed
    qed
  qed
qed

lemma match_digits_rest: "length (snd (match_digits s)) \<le> length s"
  by (simp add: match_digits_def length_dropWhile_le)

lemma match_integer_rest: "match_integer s = Some (i, r) \<Longrightarrow> length r < length s"
  using match_digits_rest [of "tl (drop (length (if take 1 s = [45] then [45] else [])) s)"]
  by (cases s) (auto simp: match_integer_def Let_def split: list.splits if_splits)

lemma match_frac_rest: "length (snd (match_frac s)) \<le> length s"
proof (cases s)
  case Nil
  then show ?thesis by (simp add: match_frac_def)
next
  case (Cons p s1)
  show ?thesis
  proof (cases s1)
    case Nil
    with Cons show ?thesis by (simp add: match_frac_def)
  next
    case (Cons d ds)
    with \<open>s = p # s1\<close> match_digits_rest [of "d # ds"] show ?thesis
      by (simp add: match_frac_def)
  qed
qed

lemma match_exp_rest: "length (snd (match_exp s)) \<le> length s"
proof (cases s)
  case Nil
  then show ?thesis by (simp add: match_exp_def)
next
  case (Cons e s1)
  have "length (snd (match_digits (drop n s1))) \<le> length s1" for n
    using match_digits_rest [of "drop n s1"] by simp
  with Cons show ?thesis
    by (simp add: match_exp_def Let_def le_SucI)
qed

lemma match_number_rest: "match_number s = Some (i, f, e, r) \<Longrightarrow> length r < length s"
proof -
  assume m: "match_number s = Some (i, f, e, r)"
  then obtain s1 where i: "match_integer s = Some (i, s1)"
    and r: "r = snd (match_exp (snd (match_frac s1)))"
    by (auto simp: match_number_def Let_def split: option.splits prod.splits)
  have "length r \<le> length s1"
    using match_exp_rest [of "snd (match_frac s1)"] match_frac_rest [of s1] r by simp
  with match_integer_rest [OF i] show ?thesis by simp
qed

lemma scanner_rest:
  shows "scan_once_JSONArray_array_loop_JSONObject_object_loop_dom (Inl (Inl (R, s))) \<Longrightarrow>
           scan_once R s = Inr (v, r) \<Longrightarrow> length r < length s"
    and "scan_once_JSONArray_array_loop_JSONObject_object_loop_dom (Inl (Inr (R, s))) \<Longrightarrow>
           JSONArray R s = Inr (v, r) \<Longrightarrow> length r < length s"
    and "scan_once_JSONArray_array_loop_JSONObject_object_loop_dom (Inr (Inl (R, vs, s))) \<Longrightarrow>
           array_loop R vs s = Inr (v, r) \<Longrightarrow> length r < length s"
    and "scan_once_JSONArray_array_loop_JSONObject_object_loop_dom (Inr (Inr (Inl (R, s)))) \<Longrightarrow>
           JSONObject R s = Inr (v, r) \<Longrightarrow> length r < length s"
    and "scan_once_JSONArray_array_loop_JSONObject_object_loop_dom
           (Inr (Inr (Inr (R, pairs, s)))) \<Longrightarrow>
           object_loop R pairs s = Inr (v, r) \<Longrightarrow> length r < length s"
proof (induct arbitrary: v r and v r and v r and v r and v r
       rule: scan_once_JSONArray_array_loop_JSONObject_object_loop.pinduct)
  case (1 R s)
  from 1(4) 1(1) obtain c s' where s: "s = c # s'"
    by (cases s) (auto simp: scan_once.psimps)
  from 1(4) 1(1) s 1(2) [OF s] 1(3) [OF s] show ?case
    by (auto simp: scan_once.psimps split: if_splits sum.splits option.splits
             dest!: scanstring_rest match_number_rest)
next
  case (2 R s)
  from 2(4) 2(1) 2(2) 2(3) length_skip_ws [of s] show ?case
    by (fastforce simp: JSONArray.psimps split: list.splits if_splits)
next
  case (3 R vs s)
  from 3(4) 3(1) obtain v1 r1 where v1: "scan_once R s = Inr (v1, r1)"
    by (auto simp: array_loop.psimps split: sum.splits)
  from 3(2) [OF v1] have r1: "length r1 < length s" .
  from 3(4) 3(1) v1 obtain c r' where c: "skip_ws r1 = c # r'"
    by (auto simp: array_loop.psimps split: list.splits)
  from skip_ws_Cons_length [OF c] r1 have r': "length r' < length s" by simp
  show ?case
  proof (cases "c = 93")
    case True
    with 3(4) 3(1) v1 c r' show ?thesis by (simp add: array_loop.psimps)
  next
    case False
    with 3(4) 3(1) v1 c have c44: "c = 44"
      and rest: "array_loop R (vs @ [v1]) (skip_ws r') = Inr (v, r)"
      by (auto simp: array_loop.psimps split: if_splits)
    from 3(3) [OF v1 refl c False _ rest] c44 have "length r < length (skip_ws r')" by simp
    with length_skip_ws [of r'] r' show ?thesis by simp
  qed
next
  case (4 R s)
  from 4(3) 4(1) 4(2) show ?case
    by (auto simp: JSONObject.psimps split: list.splits if_splits
             dest!: skip_ws_Cons_length) fastforce
next
  case (5 R pairs s)
  from 5(4) 5(1) obtain key r0 where key: "scanstring [] s = Inr (key, r0)"
    by (auto simp: object_loop.psimps split: sum.splits)
  from scanstring_rest [OF key] have r0: "length r0 < length s" .
  from 5(4) 5(1) key obtain colon r1 where colon: "skip_ws r0 = colon # r1"
    by (auto simp: object_loop.psimps split: list.splits)
  from 5(4) 5(1) key colon have c58: "\<not> colon \<noteq> 58"
    by (auto simp: object_loop.psimps split: if_splits)
  from skip_ws_Cons_length [OF colon] r0 have r1: "length r1 < length s" by simp
  from 5(4) 5(1) key colon c58 obtain v1 r2 where v1: "scan_once R (skip_ws r1) = Inr (v1, r2)"
    by (auto simp: object_loop.psimps split: sum.splits)
  from 5(2) [OF key refl colon c58 v1] length_skip_ws [of r1] r1
  have r2: "length r2 < length s" by simp
  from 5(4) 5(1) key colon c58 v1 obtain c r3 where c: "skip_ws r2 = c # r3"
    by (auto simp: object_loop.psimps split: list.splits)
  from skip_ws_Cons_length [OF c] r2 have r3: "length r3 < length s" by simp
  show ?case
  proof (cases "c = 125")
    case True
    with 5(4) 5(1) key colon c58 v1 c r3 show ?thesis by (simp add: object_loop.psimps)
  next
    case False
    with 5(4) 5(1) key colon c58 v1 c have c44: "\<not> c \<noteq> 44"
      by (auto simp: object_loop.psimps split: if_splits)
    from 5(4) 5(1) key colon c58 v1 c False c44 obtain q r4 where q: "skip_ws r3 = q # r4"
      by (auto simp: object_loop.psimps split: list.splits)
    from 5(4) 5(1) key colon c58 v1 c False c44 q have q34: "\<not> q \<noteq> 34"
      and rest: "object_loop R (pairs @ [(key, v1)]) r4 = Inr (v, r)"
      by (auto simp: object_loop.psimps split: if_splits)
    from 5(3) [OF key refl colon c58 v1 refl c False c44 q q34 rest]
    have "length r < length r4" .
    with skip_ws_Cons_length [OF q] r3 show ?thesis by simp
  qed
qed

termination scan_once
  by (relation "inv_image (less_than <*lex*> less_than)
        (\<lambda>x. case x of
            Inl (Inl (R, s)) \<Rightarrow> (length s, 0::nat)
          | Inl (Inr (R, s)) \<Rightarrow> (length s, 2)
          | Inr (Inl (R, vs, s)) \<Rightarrow> (length s, 1)
          | Inr (Inr (Inl (R, s))) \<Rightarrow> (length s, 2)
          | Inr (Inr (Inr (R, ps, s))) \<Rightarrow> (length s, 1))")
     (auto dest!: scanner_rest(1) skip_ws_Cons_length scanstring_rest
                  less_le_trans [OF _ length_skip_ws]
           intro: le_less_trans [OF length_skip_ws])

text \<open>
  The five equations rewrite any call of the scanner, so they are used only where named.
\<close>

declare scan_once.simps [simp del]
declare JSONArray.simps [simp del]
declare array_loop.simps [simp del]
declare JSONObject.simps [simp del]
declare object_loop.simps [simp del]

text \<open>
  \<^verbatim>\<open>json.loads\<close> on a \<^verbatim>\<open>str\<close>: a byte order mark is refused, white space
  around the one value is skipped, anything after it is \<^verbatim>\<open>Extra data\<close>.
\<close>

definition json_loads :: "'f runtime \<Rightarrow> pystr \<Rightarrow> exn + 'f pyobj" where
  "json_loads R s =
     (if take 1 s = [65279] then Inl JSONDecodeError
      else
        (case scan_once R (skip_ws s) of
           Inl e \<Rightarrow> Inl (expecting_value e)
         | Inr (obj, r) \<Rightarrow> if skip_ws r \<noteq> [] then Inl JSONDecodeError else Inr obj))"

subsection \<open>json.dumps: the encoder\<close>

text \<open>
  The encoder follows \<^verbatim>\<open>json/encoder.py\<close>. Every key of a dict that the decoder
  built is a \<^verbatim>\<open>str\<close>, so the conversion of other keys is not needed.
\<close>

definition hexdigit :: "nat \<Rightarrow> nat" where
  "hexdigit d = (if d < 10 then 48 + d else 87 + d)"

definition u_escape :: "nat \<Rightarrow> pystr" where
  \<comment> \<open>\<^verbatim>\<open>'\\u{0:04x}'.format(n)\<close>, for \<open>n < 65536\<close>\<close>
  "u_escape n =
     [92, 117, hexdigit (n div 4096 mod 16), hexdigit (n div 256 mod 16),
      hexdigit (n div 16 mod 16), hexdigit (n mod 16)]"

definition ESCAPE_DCT :: "nat \<Rightarrow> pystr option" where
  "ESCAPE_DCT c =
     (if c = 92 then Some [92, 92]
      else if c = 34 then Some [92, 34]
      else if c = 8 then Some [92, 98]
      else if c = 12 then Some [92, 102]
      else if c = 10 then Some [92, 110]
      else if c = 13 then Some [92, 114]
      else if c = 9 then Some [92, 116]
      else if c < 32 then Some (u_escape c)
      else None)"

definition replace_ascii :: "nat \<Rightarrow> pystr" where
  \<comment> \<open>\<^verbatim>\<open>ESCAPE_ASCII = ([\\"]|[^\ -~])\<close> and its \<^verbatim>\<open>replace\<close>\<close>
  "replace_ascii c =
     (if c = 92 \<or> c = 34 \<or> \<not> (32 \<le> c \<and> c \<le> 126) then
        (case ESCAPE_DCT c of
           Some e \<Rightarrow> e
         | None \<Rightarrow>
             if c < 65536 then u_escape c
             else u_escape (55296 + (c - 65536) div 1024 mod 1024)
                  @ u_escape (56320 + (c - 65536) mod 1024))
      else [c])"

definition encode_basestring_ascii :: "pystr \<Rightarrow> pystr" where
  "encode_basestring_ascii s = [34] @ concat (map replace_ascii s) @ [34]"

definition replace_plain :: "nat \<Rightarrow> pystr" where
  \<comment> \<open>\<^verbatim>\<open>ESCAPE = [\x00-\x1f\\"\b\f\n\r\t]\<close> and its \<^verbatim>\<open>replace\<close>\<close>
  "replace_plain c = (case ESCAPE_DCT c of Some e \<Rightarrow> e | None \<Rightarrow> [c])"

definition encode_basestring :: "pystr \<Rightarrow> pystr" where
  "encode_basestring s = [34] @ concat (map replace_plain s) @ [34]"

definition encoder :: "'f runtime \<Rightarrow> pystr \<Rightarrow> pystr" where
  "encoder R s = (if ensure_ascii R then encode_basestring_ascii s else encode_basestring s)"

fun digits_of :: "nat \<Rightarrow> pystr" where
  "digits_of n = (if n < 10 then [48 + n] else digits_of (n div 10) @ [48 + n mod 10])"

definition intstr :: "int \<Rightarrow> pystr" where
  \<comment> \<open>\<^verbatim>\<open>int.__repr__\<close>\<close>
  "intstr n = (if n < 0 then 45 # digits_of (nat (- n)) else digits_of (nat n))"

fun join :: "pystr \<Rightarrow> pystr list \<Rightarrow> pystr" where
  "join sep [] = []"
| "join sep [x] = x"
| "join sep (x # y # ys) = x @ sep @ join sep (y # ys)"

definition newline_indent :: "'f runtime \<Rightarrow> nat \<Rightarrow> pystr" where
  \<comment> \<open>\<^verbatim>\<open>'\n' + _indent * _current_indent_level\<close>, nothing when there is no indent\<close>
  "newline_indent R level =
     (case indent R of None \<Rightarrow> [] | Some n \<Rightarrow> 10 # replicate (n * level) 32)"

function iterencode :: "'f runtime \<Rightarrow> nat \<Rightarrow> 'f pyobj \<Rightarrow> pystr" where
  "iterencode R level PyNone = str ''null''"
| "iterencode R level (PyBool b) = (if b then str ''true'' else str ''false'')"
| "iterencode R level (PyInt n) = intstr n"
| "iterencode R level (PyFloat x) = floatstr R x"
| "iterencode R level (PyStr s) = encoder R s"
| "iterencode R level (PyList lst) =
     (if lst = [] then str ''[]''
      else str ''['' @ newline_indent R (level + 1)
           @ join (item_separator R @ newline_indent R (level + 1))
               (map (iterencode R (level + 1)) lst)
           @ newline_indent R level @ str '']'')"
| "iterencode R level (PyDict dct) =
     (if dct = [] then str ''{}''
      else str ''{'' @ newline_indent R (level + 1)
           @ join (item_separator R @ newline_indent R (level + 1))
               (map (\<lambda>(key, v). encoder R key @ key_separator R @ iterencode R (level + 1) v)
                  (if sort_keys R then sort_key fst dct else dct))
           @ newline_indent R level @ str ''}'')"
  by pat_completeness auto

lemma size_dict_value:
  "(key, v) \<in> set dct \<Longrightarrow> size v < Suc (size_list (\<lambda>x. Suc (size (snd x))) dct)"
  by (induction dct) auto

termination iterencode
  by (relation "measure (\<lambda>(R, level, obj). size obj)")
     (auto simp: size_list_estimation' less_Suc_eq_le dest: size_dict_value split: if_splits)

definition json_dumps :: "'f runtime \<Rightarrow> 'f pyobj \<Rightarrow> pystr" where
  "json_dumps R obj = iterencode R 0 obj"

subsection \<open>Files\<close>

text \<open>
  The file system as the program can observe it: what a path names, if anything. A
  regular file is \<open>Text s\<close> when the default codec decodes its bytes to \<open>s\<close> and
  \<open>Binary\<close> when it does not; \<open>NoPermission\<close> is a file the process may not open.
\<close>

datatype node = Text pystr | Binary | Directory | NoPermission

type_synonym filesystem = "pystr \<Rightarrow> node option"

definition join2 :: "pystr \<Rightarrow> pystr \<Rightarrow> pystr" where
  \<comment> \<open>one round of the loop of \<^verbatim>\<open>posixpath.join\<close>\<close>
  "join2 path b =
     (if take 1 b = [47] then b
      else if path = [] \<or> last path = 47 then path @ b
      else path @ [47] @ b)"

definition os_path_join :: "pystr \<Rightarrow> pystr list \<Rightarrow> pystr" where
  \<comment> \<open>\<^verbatim>\<open>posixpath.join(a, *p)\<close>\<close>
  "os_path_join a p = foldl join2 a p"

definition os_path_exists :: "filesystem \<Rightarrow> pystr \<Rightarrow> bool" where
  "os_path_exists fs path = (fs path \<noteq> None)"

definition os_path_isfile :: "filesystem \<Rightarrow> pystr \<Rightarrow> bool" where
  "os_path_isfile fs path = (fs path \<noteq> None \<and> fs path \<noteq> Some Directory)"

text \<open>
  \<^verbatim>\<open>open(path, mode)\<close> for the modes \<^verbatim>\<open>"r"\<close> and \<^verbatim>\<open>"w"\<close>. Opening is an
  effect: the file system is passed in and returned, and only \<^verbatim>\<open>"w"\<close> changes it
  (it creates or truncates the file). The file object is the node it was opened on.
\<close>

datatype open_mode = Mode_r | Mode_w

definition py_open :: "pystr \<Rightarrow> open_mode \<Rightarrow> filesystem \<Rightarrow> (exn + node) \<times> filesystem" where
  "py_open path mode fs =
     (case fs path of
        Some Directory \<Rightarrow> (Inl IsADirectoryError, fs)
      | Some NoPermission \<Rightarrow> (Inl PermissionError, fs)
      | Some f \<Rightarrow>
          (case mode of
             Mode_r \<Rightarrow> (Inr f, fs)
           | Mode_w \<Rightarrow> (Inr (Text []), fs(path \<mapsto> Text [])))
      | None \<Rightarrow>
          (case mode of
             Mode_r \<Rightarrow> (Inl FileNotFoundError, fs)
           | Mode_w \<Rightarrow> (Inr (Text []), fs(path \<mapsto> Text []))))"

definition file_read :: "node \<Rightarrow> exn + pystr" where
  \<comment> \<open>\<^verbatim>\<open>f.read()\<close> of a file opened for reading in text mode\<close>
  "file_read f =
     (case f of
        Text s \<Rightarrow> Inr s
      | Binary \<Rightarrow> Inl UnicodeDecodeError
      | Directory \<Rightarrow> Inl IsADirectoryError
      | NoPermission \<Rightarrow> Inl PermissionError)"

definition json_load :: "'f runtime \<Rightarrow> node \<Rightarrow> exn + 'f pyobj" where
  \<comment> \<open>\<^verbatim>\<open>json.load(fp) = loads(fp.read())\<close>\<close>
  "json_load R fp = (case file_read fp of Inl e \<Rightarrow> Inl e | Inr s \<Rightarrow> json_loads R s)"

subsection \<open>Flask\<close>

text \<open>
  A response is its status, its media type and its body. \<^verbatim>\<open>jsonify(obj)\<close> is the
  response whose body is \<^verbatim>\<open>json.dumps(obj, ...)\<close> followed by a newline.
\<close>

record response =
  status :: nat
  mimetype :: pystr
  data :: pystr

definition jsonify :: "'f runtime \<Rightarrow> 'f pyobj \<Rightarrow> response" where
  "jsonify R obj =
     \<lparr>status = 200, mimetype = str ''application/json'', data = json_dumps R obj @ [10]\<rparr>"

text \<open>
  The module state that exists once app.py is imported: the two path constants, and the
  root path of the Flask object, which Flask derives from the same \<^verbatim>\<open>__file__\<close>.
  \<open>startup\<close> takes the absolute directory of app.py. It reads no file.
\<close>

record app =
  BASE_DIR :: pystr
  LOG_DIR :: pystr
  root_path :: pystr

definition startup :: "pystr \<Rightarrow> app" where
  "startup dir =
     \<lparr>BASE_DIR = dir,
      LOG_DIR = os_path_join dir [str ''results'', str ''logs''],
      root_path = dir\<rparr>"

text \<open>
  \<^verbatim>\<open>render_template(name)\<close> looks the template up when it is called: Jinja's file
  loader takes \<^verbatim>\<open>templates/name\<close> under the root path if that is a file, reads it
  and renders it. Jinja may keep a loaded template instead of reading it again; the model
  reads it at every call, which is the same as long as the template files do not change
  while the server runs.
\<close>

definition render_template ::
  "'f runtime \<Rightarrow> app \<Rightarrow> pystr \<Rightarrow> filesystem \<Rightarrow> (exn + pystr) \<times> filesystem" where
  "render_template R A name fs =
     (let filename = os_path_join (root_path A) [str ''templates'', name]
      in if \<not> os_path_isfile fs filename then (Inl TemplateNotFound, fs)
         else
           (case py_open filename Mode_r fs of
              (Inl e, fs') \<Rightarrow> (Inl e, fs')
            | (Inr f, fs') \<Rightarrow>
                (case file_read f of
                   Inl e \<Rightarrow> (Inl e, fs')
                 | Inr source \<Rightarrow> (jinja_render R source, fs'))))"

text \<open>
  A view returns a string or a response; \<^verbatim>\<open>make_response\<close> turns a string into an
  HTML response of status 200.
\<close>

datatype rv = Str pystr | Resp response

definition make_response :: "rv \<Rightarrow> response" where
  "make_response v =
     (case v of
        Str s \<Rightarrow> \<lparr>status = 200, mimetype = str ''text/html'', data = s\<rparr>
      | Resp r \<Rightarrow> r)"

subsection \<open>app.py\<close>

definition load_json ::
  "'f runtime \<Rightarrow> app \<Rightarrow> pystr \<Rightarrow> filesystem \<Rightarrow> (exn + 'f pyobj) \<times> filesystem" where
  "load_json R A filename fs =
     (let path = os_path_join (LOG_DIR A) [filename]
      in if \<not> os_path_exists fs path then (Inr (PyDict []), fs)
         else
           (case py_open path Mode_r fs of
              (Inl e, fs') \<Rightarrow> (Inl e, fs')
            | (Inr f, fs') \<Rightarrow> (json_load R f, fs')))"

type_synonym 'f view = "'f runtime \<Rightarrow> app \<Rightarrow> filesystem \<Rightarrow> (exn + rv) \<times> filesystem"

definition index :: "'f view" where
  "index R A fs =
     (case render_template R A (str ''index.html'') fs of
        (Inl e, fs') \<Rightarrow> (Inl e, fs')
      | (Inr html, fs') \<Rightarrow> (Inr (Str html), fs'))"

definition jsonify_view :: "'f runtime \<Rightarrow> (exn + 'f pyobj) \<times> filesystem \<Rightarrow> (exn + rv) \<times> filesystem" where
  \<comment> \<open>\<^verbatim>\<open>return jsonify(...)\<close> around a call that may raise\<close>
  "jsonify_view R x =
     (case x of
        (Inl e, fs') \<Rightarrow> (Inl e, fs')
      | (Inr obj, fs') \<Rightarrow> (Inr (Resp (jsonify R obj)), fs'))"

definition serial_metrics :: "'f view" where
  "serial_metrics R A fs = jsonify_view R (load_json R A (str ''serial_metrics.json'') fs)"

definition parallel_metrics :: "'f view" where
  "parallel_metrics R A fs = jsonify_view R (load_json R A (str ''parallel_metrics.json'') fs)"

definition compare_metrics :: "'f view" where
  "compare_metrics R A fs = jsonify_view R (load_json R A (str ''compare_metrics.json'') fs)"

text \<open>
  The routes that the decorators register, and the handling of a GET request by its URL
  path. A path that matches no rule reaches no view. An exception that leaves a view is
  answered with status 500 (by Flask, or by the debugger around it); the body of that
  answer is not modelled.
\<close>

definition url_map :: "(pystr \<times> 'f view) list" where
  "url_map =
     [(str ''/'', index),
      (str ''/api/serial'', serial_metrics),
      (str ''/api/parallel'', parallel_metrics),
      (str ''/api/compare'', compare_metrics)]"

datatype reply = Reply response | InternalServerError exn | NoRoute


definition handle_request ::
  "'f runtime \<Rightarrow> app \<Rightarrow> pystr \<Rightarrow> filesystem \<Rightarrow> reply \<times> filesystem" where
  "handle_request R A url fs =
     (case map_of url_map url of
        None \<Rightarrow> (NoRoute, fs)
      | Some view \<Rightarrow>
          (case view R A fs of
             (Inl e, fs') \<Rightarrow> (InternalServerError e, fs')
           | (Inr v, fs') \<Rightarrow> (Reply (make_response v), fs')))"

subsection \<open>Two installations\<close>

text \<open>
  Closed instances below are stated for the settings of a current Flask release:
  \<^verbatim>\<open>sort_keys\<close> and \<^verbatim>\<open>ensure_ascii\<close> on, the separators \<^verbatim>\<open>(",", ":")\<close>
  without indentation, and an indentation of two with the separators
  \<^verbatim>\<open>(",", ": ")\<close> in debug mode. In these two runtimes a float is kept as the numeral
  or the constant it was read from, which is how Python writes the three constants and
  the numerals that are in the form of \<^verbatim>\<open>repr\<close> already; a template is rendered as
  its source without one final newline (what Jinja does to a source without template
  syntax). The instances below contain no other float and no template syntax.
\<close>

definition static_render :: "pystr \<Rightarrow> exn + pystr" where
  "static_render source =
     Inr (if source \<noteq> [] \<and> last source = 10 then butlast source else source)"

definition flask_default :: "pystr runtime" where
  "flask_default =
     \<lparr>parse_float = (\<lambda>s. s), parse_constant = (\<lambda>s. s), floatstr = (\<lambda>x. x),
      indent = None, item_separator = str '','', key_separator = str '':'',
      sort_keys = True, ensure_ascii = True, jinja_render = static_render\<rparr>"

definition flask_debug :: "pystr runtime" where
  "flask_debug =
     \<lparr>parse_float = (\<lambda>s. s), parse_constant = (\<lambda>s. s), floatstr = (\<lambda>x. x),
      indent = Some 2, item_separator = str '','', key_separator = str '': '',
      sort_keys = True, ensure_ascii = True, jinja_render = static_render\<rparr>"

subsection \<open>Names for the statements\<close>

text \<open>
  The three metric routes, each with the file name that its view passes to
  \<open>load_json\<close> (\<open>handle_metrics\<close> below checks the table against the views).
\<close>

definition metrics_routes :: "(pystr \<times> pystr) list" where
  "metrics_routes =
     [(str ''/api/serial'', str ''serial_metrics.json''),
      (str ''/api/parallel'', str ''parallel_metrics.json''),
      (str ''/api/compare'', str ''compare_metrics.json'')]"


text \<open>
  The server over time: requests arrive one after the other, and between them the
  producer of the metric files may write a file or remove it. The module state is the
  same for every request, since no view assigns to it, and each request is handled on
  the file system that the previous events left.
\<close>

datatype event = Get pystr | Write pystr "node option"

fun serve :: "'f runtime \<Rightarrow> app \<Rightarrow> event list \<Rightarrow> filesystem \<Rightarrow> reply list \<times> filesystem" where
  "serve R A [] fs = ([], fs)"
| "serve R A (Get url # es) fs =
     (case handle_request R A url fs of
        (r, fs') \<Rightarrow> (case serve R A es fs' of (rs, fs'') \<Rightarrow> (r # rs, fs'')))"
| "serve R A (Write path n # es) fs = serve R A es (fs(path := n))"

text \<open>
  \<open>under d path\<close>: the path starts with \<open>d\<close>. Every file in the directory
  \<open>d\<close> or below it has such a path.
\<close>

definition under :: "pystr \<Rightarrow> pystr \<Rightarrow> bool" where
  "under d path = (take (length d) path = d)"

section \<open>Properties\<close>

subsection \<open>Evaluating documents\<close>

lemmas json_eval =
  scan_once.simps JSONArray.simps array_loop.simps JSONObject.simps object_loop.simps
  json_loads_def str_def skip_ws_def is_ws_def match_number_def match_integer_def
  match_frac_def match_exp_def match_digits_def is_digit_def py_int_def digits_value_def
  py_dict_def expecting_value_def

lemmas dumps_eval =
  json_dumps_def encoder_def encode_basestring_ascii_def replace_ascii_def newline_indent_def
  intstr_def ESCAPE_DCT_def


lemma dumps_empty_dict: "json_dumps R (PyDict []) = str ''{}''"
  by (simp add: json_dumps_def)

subsection \<open>The decoder raises nothing but JSONDecodeError\<close>




subsection \<open>What a route does\<close>

lemma load_json_node:
  "load_json R A filename fs =
     (case fs (os_path_join (LOG_DIR A) [filename]) of
        None \<Rightarrow> Inr (PyDict [])
      | Some (Text s) \<Rightarrow> json_loads R s
      | Some Binary \<Rightarrow> Inl UnicodeDecodeError
      | Some Directory \<Rightarrow> Inl IsADirectoryError
      | Some NoPermission \<Rightarrow> Inl PermissionError, fs)"
  by (simp add: load_json_def Let_def os_path_exists_def py_open_def json_load_def file_read_def
           split: option.splits node.splits)

lemma map_of_url_map:
  "map_of url_map (str ''/'') = Some index"
  "map_of url_map (str ''/api/serial'') = Some serial_metrics"
  "map_of url_map (str ''/api/parallel'') = Some parallel_metrics"
  "map_of url_map (str ''/api/compare'') = Some compare_metrics"
  by (simp_all add: url_map_def str_def)

lemma handle_metrics:
  assumes "(url, filename) \<in> set metrics_routes"
  shows "handle_request R A url fs =
     (case fst (load_json R A filename fs) of
        Inl e \<Rightarrow> InternalServerError e
      | Inr obj \<Rightarrow> Reply (jsonify R obj), fs)"
  using assms
  by (auto simp: metrics_routes_def handle_request_def map_of_url_map serial_metrics_def
        parallel_metrics_def compare_metrics_def jsonify_view_def load_json_node make_response_def
        split: sum.splits)

lemma metrics_reply:
  assumes "(url, filename) \<in> set metrics_routes"
  shows "handle_request R A url fs =
     (case fs (os_path_join (LOG_DIR A) [filename]) of
        None \<Rightarrow> Reply (jsonify R (PyDict []))
      | Some (Text s) \<Rightarrow>
          (case json_loads R s of
             Inl e \<Rightarrow> InternalServerError e
           | Inr obj \<Rightarrow> Reply (jsonify R obj))
      | Some Binary \<Rightarrow> InternalServerError UnicodeDecodeError
      | Some Directory \<Rightarrow> InternalServerError IsADirectoryError
      | Some NoPermission \<Rightarrow> InternalServerError PermissionError, fs)"
  by (simp add: handle_metrics [OF assms] load_json_node split: option.splits node.splits)

lemma index_reply:
  "handle_request R A (str ''/'') fs =
     (case fs (os_path_join (root_path A) [str ''templates'', str ''index.html'']) of
        Some (Text source) \<Rightarrow>
          (case jinja_render R source of
             Inl e \<Rightarrow> InternalServerError e
           | Inr html \<Rightarrow> Reply \<lparr>status = 200, mimetype = str ''text/html'', data = html\<rparr>)
      | Some Binary \<Rightarrow> InternalServerError UnicodeDecodeError
      | Some NoPermission \<Rightarrow> InternalServerError PermissionError
      | Some Directory \<Rightarrow> InternalServerError TemplateNotFound
      | None \<Rightarrow> InternalServerError TemplateNotFound, fs)"
  by (simp add: handle_request_def map_of_url_map index_def render_template_def Let_def
        os_path_isfile_def py_open_def file_read_def make_response_def
        split: option.splits node.splits sum.splits)

lemma serve_append:
  "serve R A (xs @ ys) fs =
     (case serve R A xs fs of
        (rs, fs') \<Rightarrow> (case serve R A ys fs' of (rs', fs'') \<Rightarrow> (rs @ rs', fs'')))"
proof (induction xs arbitrary: fs)
  case Nil
  then show ?case by (simp split: prod.splits)
next
  case (Cons x xs)
  show ?case
  proof (cases x)
    case (Get url)
    with Cons show ?thesis by (simp split: prod.splits)
  next
    case (Write path n)
    with Cons.IH [of "fs(path := n)"] show ?thesis by (simp only: append_Cons serve.simps)
  qed
qed

subsection \<open>Paths\<close>

lemma join2_inj:
  "take 1 f \<noteq> [47] \<Longrightarrow> take 1 f' \<noteq> [47] \<Longrightarrow> (join2 L f = join2 L f') = (f = f')"
  by (simp add: join2_def)

lemma metrics_file_relative:
  "(url, filename) \<in> set metrics_routes \<Longrightarrow> take 1 filename \<noteq> [47]"
  by (auto simp: metrics_routes_def str_def)

lemma metrics_path_inj:
  assumes "(url, filename) \<in> set metrics_routes" and "(url', filename') \<in> set metrics_routes"
  shows "(os_path_join L [filename] = os_path_join L [filename']) = (filename = filename')"
  using join2_inj [OF metrics_file_relative [OF assms(1)] metrics_file_relative [OF assms(2)]]
  by (simp add: os_path_join_def)

lemma metrics_routes_one_to_one:
  assumes "(url, filename) \<in> set metrics_routes" and "(url', filename') \<in> set metrics_routes"
  shows "(url = url') = (filename = filename')"
proof -
  have "str ''/api/serial'' \<noteq> str ''/api/parallel''" "str ''/api/serial'' \<noteq> str ''/api/compare''"
    "str ''/api/parallel'' \<noteq> str ''/api/compare''"
    "str ''serial_metrics.json'' \<noteq> str ''parallel_metrics.json''"
    "str ''serial_metrics.json'' \<noteq> str ''compare_metrics.json''"
    "str ''parallel_metrics.json'' \<noteq> str ''compare_metrics.json''"
    by (simp_all add: str_def)
  with assms show ?thesis
    by (auto simp: metrics_routes_def)
qed

lemma template_not_under_results:
  "\<not> under (os_path_join dir [str ''results''])
           (os_path_join dir [str ''templates'', str ''index.html''])"
  by (cases "dir = [] \<or> last dir = 47")
     (simp_all add: under_def os_path_join_def join2_def str_def)

lemma metrics_under_results:
  assumes "(url, filename) \<in> set metrics_routes"
  shows "under (os_path_join dir [str ''results''])
           (os_path_join (LOG_DIR (startup dir)) [filename])"
  using metrics_file_relative [OF assms]
  by (cases "dir = [] \<or> last dir = 47")
     (simp_all add: under_def startup_def os_path_join_def join2_def str_def)


subsection \<open>The claims\<close>

text \<open>
  C1. For each of the three metric routes: if the file of the route does not exist in
  the results directory, the reply is HTTP 200 with the JSON document of the empty
  object as its body: the text \<^verbatim>\<open>{}\<close> and the newline that \<^verbatim>\<open>jsonify\<close>
  puts after every document, which decodes to the empty dict.
\<close>

theorem missing_file_empty_object:
  assumes "(url, filename) \<in> set metrics_routes"
    and "\<not> os_path_exists fs (os_path_join (LOG_DIR A) [filename])"
  shows "handle_request R A url fs =
           (Reply \<lparr>status = 200, mimetype = str ''application/json'', data = str ''{}'' @ [10]\<rparr>, fs)
         \<and> json_loads R (str ''{}'' @ [10]) = Inr (PyDict [])"
proof
  from assms(2) have "fs (os_path_join (LOG_DIR A) [filename]) = None"
    by (simp add: os_path_exists_def)
  then show "handle_request R A url fs =
      (Reply \<lparr>status = 200, mimetype = str ''application/json'', data = str ''{}'' @ [10]\<rparr>, fs)"
    by (simp add: handle_metrics [OF assms(1)] load_json_node jsonify_def dumps_empty_dict)
  show "json_loads R (str ''{}'' @ [10]) = Inr (PyDict [])"
    by (simp add: json_eval)
qed

theorem missing_file_empty_object_witness:
  "handle_request flask_default (startup (str ''/srv/app'')) (str ''/api/serial'') Map.empty =
     (Reply \<lparr>status = 200, mimetype = str ''application/json'', data = str ''{}'' @ [10]\<rparr>,
      Map.empty)
   \<and> handle_request flask_debug (startup (str ''/srv/app'')) (str ''/api/parallel'') Map.empty =
     (Reply \<lparr>status = 200, mimetype = str ''application/json'', data = str ''{}'' @ [10]\<rparr>,
      Map.empty)
   \<and> handle_request flask_default (startup (str ''/srv/app'')) (str ''/api/compare'') Map.empty =
     (Reply \<lparr>status = 200, mimetype = str ''application/json'', data = str ''{}'' @ [10]\<rparr>,
      Map.empty)"
  using missing_file_empty_object
          [of "str ''/api/serial''" "str ''serial_metrics.json''" Map.empty
              "startup (str ''/srv/app'')" flask_default]
        missing_file_empty_object
          [of "str ''/api/parallel''" "str ''parallel_metrics.json''" Map.empty
              "startup (str ''/srv/app'')" flask_debug]
        missing_file_empty_object
          [of "str ''/api/compare''" "str ''compare_metrics.json''" Map.empty
              "startup (str ''/srv/app'')" flask_default]
  by (simp add: metrics_routes_def os_path_exists_def)







text \<open>
  C4. The route decides the file: \<^verbatim>\<open>/api/serial\<close> reads
  \<^verbatim>\<open>serial_metrics.json\<close>, \<^verbatim>\<open>/api/parallel\<close> reads
  \<^verbatim>\<open>parallel_metrics.json\<close> and \<^verbatim>\<open>/api/compare\<close> reads
  \<^verbatim>\<open>compare_metrics.json\<close>, each under the directory \<open>LOG_DIR\<close> that
  \<open>startup\<close> computes from the install directory alone. The reply of a route is the
  same on two file systems that agree on its file, it does change with that file, and
  different routes have different files.
\<close>

theorem route_reads_its_own_file:
  assumes "(url, filename) \<in> set metrics_routes"
    and "path = os_path_join (LOG_DIR (startup dir)) [filename]"
  shows "LOG_DIR (startup dir) = os_path_join dir [str ''results'', str ''logs'']
       \<and> (url = str ''/api/serial'' \<and> filename = str ''serial_metrics.json''
          \<or> url = str ''/api/parallel'' \<and> filename = str ''parallel_metrics.json''
          \<or> url = str ''/api/compare'' \<and> filename = str ''compare_metrics.json'')
       \<and> (\<forall>fs fs'. fs path = fs' path \<longrightarrow>
             fst (handle_request R (startup dir) url fs) =
             fst (handle_request R (startup dir) url fs'))
       \<and> fst (handle_request R (startup dir) url (fs(path := None))) \<noteq>
         fst (handle_request R (startup dir) url (fs(path \<mapsto> Text (str ''[]''))))
       \<and> (\<forall>url' filename'. (url', filename') \<in> set metrics_routes \<longrightarrow>
             (url' = url) = (filename' = filename)
             \<and> (os_path_join (LOG_DIR (startup dir)) [filename'] = path) = (filename' = filename))"
proof -
  have loads: "json_loads R (str ''[]'') = Inr (PyList [])"
    by (simp add: json_eval)
  have differ: "jsonify R (PyDict []) \<noteq> jsonify R (PyList [])"
    by (simp add: jsonify_def json_dumps_def str_def)
  show ?thesis
    unfolding assms(2)
    using assms(1) metrics_routes_one_to_one [OF _ assms(1)] metrics_path_inj [OF _ assms(1)]
    by (auto simp: metrics_reply [OF assms(1)] loads differ startup_def metrics_routes_def)
qed

theorem route_reads_its_own_file_witness:
  "LOG_DIR (startup (str ''/srv/app'')) = str ''/srv/app/results/logs''
   \<and> fst (handle_request flask_default (startup (str ''/srv/app'')) (str ''/api/serial'')
          [str ''/srv/app/results/logs/serial_metrics.json'' \<mapsto> Text (str ''[]''),
           str ''/srv/app/results/logs/parallel_metrics.json'' \<mapsto> Text (str ''{not valid}'')]) =
     fst (handle_request flask_default (startup (str ''/srv/app'')) (str ''/api/serial'')
          [str ''/srv/app/results/logs/serial_metrics.json'' \<mapsto> Text (str ''[]'')])"
proof -
  have r: "(str ''/api/serial'', str ''serial_metrics.json'') \<in> set metrics_routes"
    by (simp add: metrics_routes_def)
  have p: "str ''/srv/app/results/logs/serial_metrics.json'' =
      os_path_join (LOG_DIR (startup (str ''/srv/app''))) [str ''serial_metrics.json'']"
    by (simp add: startup_def os_path_join_def join2_def str_def)
  have l: "os_path_join (str ''/srv/app'') [str ''results'', str ''logs''] =
      str ''/srv/app/results/logs''"
    by (simp add: os_path_join_def join2_def str_def)
  have ne: "str ''/srv/app/results/logs/parallel_metrics.json'' \<noteq>
      str ''/srv/app/results/logs/serial_metrics.json''"
    by (simp add: str_def)
  note inst = route_reads_its_own_file [OF r p, of flask_default Map.empty]
  from inst [THEN conjunct1] l
  have a: "LOG_DIR (startup (str ''/srv/app'')) = str ''/srv/app/results/logs''"
    by (rule trans)
  from inst have
    "\<forall>fs fs'. fs (str ''/srv/app/results/logs/serial_metrics.json'') =
                 fs' (str ''/srv/app/results/logs/serial_metrics.json'') \<longrightarrow>
       fst (handle_request flask_default (startup (str ''/srv/app'')) (str ''/api/serial'') fs) =
       fst (handle_request flask_default (startup (str ''/srv/app'')) (str ''/api/serial'') fs')"
    by (elim conjE)
  from this [rule_format,
      of "[str ''/srv/app/results/logs/serial_metrics.json'' \<mapsto> Text (str ''[]''),
           str ''/srv/app/results/logs/parallel_metrics.json'' \<mapsto> Text (str ''{not valid}'')]"
         "[str ''/srv/app/results/logs/serial_metrics.json'' \<mapsto> Text (str ''[]'')]"] ne
  have b: "fst (handle_request flask_default (startup (str ''/srv/app'')) (str ''/api/serial'')
          [str ''/srv/app/results/logs/serial_metrics.json'' \<mapsto> Text (str ''[]''),
           str ''/srv/app/results/logs/parallel_metrics.json'' \<mapsto> Text (str ''{not valid}'')]) =
     fst (handle_request flask_default (startup (str ''/srv/app'')) (str ''/api/serial'')
          [str ''/srv/app/results/logs/serial_metrics.json'' \<mapsto> Text (str ''[]'')])"
    using ne [symmetric]
    by (simp only: fun_upd_apply if_False if_True simp_thms)
  from a b show ?thesis by (rule conjI)
qed

text \<open>
  C5. Nothing is cached: after any history of requests and writes, when the file of a
  metric route holds the text \<open>s1\<close> at one request and the text \<open>s2\<close> at the
  next, the first reply carries the value of \<open>s1\<close> and the second the value of
  \<open>s2\<close>.
\<close>

theorem no_caching_between_requests:
  assumes "(url, filename) \<in> set metrics_routes"
    and "path = os_path_join (LOG_DIR A) [filename]"
    and "json_loads R s1 = Inr obj1"
    and "json_loads R s2 = Inr obj2"
  shows "fst (serve R A
                (history @ [Write path (Some (Text s1)), Get url,
                            Write path (Some (Text s2)), Get url]) fs) =
         fst (serve R A history fs) @ [Reply (jsonify R obj1), Reply (jsonify R obj2)]"
proof -
  obtain rs fs' where h: "serve R A history fs = (rs, fs')"
    by (cases "serve R A history fs")
  have g: "handle_request R A url (f(path \<mapsto> Text s)) =
      (Reply (jsonify R obj), f(path \<mapsto> Text s))" if "json_loads R s = Inr obj" for f s obj
    using that by (simp add: metrics_reply [OF assms(1)] assms(2))
  have "serve R A [Write path (Some (Text s1)), Get url, Write path (Some (Text s2)), Get url] fs' =
      ([Reply (jsonify R obj1), Reply (jsonify R obj2)], fs'(path \<mapsto> Text s2))"
    by (simp add: g [OF assms(3)] g [OF assms(4)])
  with h show ?thesis by (simp add: serve_append)
qed

theorem no_caching_between_requests_witness:
  \<open>fst (serve flask_default (startup (str ''/srv/app''))
          [Get (str ''/api/serial''),
           Write (str ''/srv/app/results/logs/serial_metrics.json'') (Some (Text (str ''{"a": 1}''))),
           Get (str ''/api/serial''),
           Write (str ''/srv/app/results/logs/serial_metrics.json'') (Some (Text (str ''[1,2,3]''))),
           Get (str ''/api/serial'')] Map.empty) =
     [Reply \<lparr>status = 200, mimetype = str ''application/json'', data = str ''{}'' @ [10]\<rparr>,
      Reply \<lparr>status = 200, mimetype = str ''application/json'', data = str ''{"a":1}'' @ [10]\<rparr>,
      Reply \<lparr>status = 200, mimetype = str ''application/json'', data = str ''[1,2,3]'' @ [10]\<rparr>]\<close>
proof -
  have r: "(str ''/api/serial'', str ''serial_metrics.json'') \<in> set metrics_routes"
    by (simp add: metrics_routes_def)
  have p: "str ''/srv/app/results/logs/serial_metrics.json'' =
      os_path_join (LOG_DIR (startup (str ''/srv/app''))) [str ''serial_metrics.json'']"
    by (simp add: startup_def os_path_join_def join2_def str_def)
  have l1: \<open>json_loads flask_default (str ''{"a": 1}'') = Inr (PyDict [(str ''a'', PyInt 1)])\<close>
    by (simp add: json_eval)
  have l2: \<open>json_loads flask_default (str ''[1,2,3]'') = Inr (PyList [PyInt 1, PyInt 2, PyInt 3])\<close>
    by (simp add: json_eval)
  have d1: \<open>json_dumps flask_default (PyDict [(str ''a'', PyInt 1)]) = str ''{"a":1}''\<close>
    by (simp add: dumps_eval flask_default_def str_def)
  have d2: \<open>json_dumps flask_default (PyList [PyInt 1, PyInt 2, PyInt 3]) = str ''[1,2,3]''\<close>
    by (simp add: dumps_eval flask_default_def str_def)
  have first: "serve flask_default (startup (str ''/srv/app'')) [Get (str ''/api/serial'')] Map.empty =
      ([Reply (jsonify flask_default (PyDict []))], Map.empty)"
    by (simp add: metrics_reply [OF r])
  from no_caching_between_requests
         [OF r p l1 l2, of "[Get (str ''/api/serial'')]" Map.empty]
  show ?thesis
    by (simp only: first append_Cons append_Nil fst_conv jsonify_def d1 d2 dumps_empty_dict)
qed

text \<open>
  C6. The missing file is the only failure that is recovered. For each metric route: the
  reply is the empty object when the path does not exist; a path that cannot be opened
  (a directory, a file without permission), a file that cannot be read as text and a text
  that \<^verbatim>\<open>json.load\<close> rejects each end in the internal server error for their
  exception; and when the path exists, \<open>load_json\<close> returns the empty dict only if
  the file itself holds a document that decodes to it.
\<close>

theorem only_missing_file_is_recovered:
  assumes "(url, filename) \<in> set metrics_routes"
    and "path = os_path_join (LOG_DIR A) [filename]"
  shows "(\<not> os_path_exists fs path \<longrightarrow>
            load_json R A filename fs = (Inr (PyDict []), fs)
            \<and> handle_request R A url fs = (Reply (jsonify R (PyDict [])), fs))
       \<and> (fs path = Some Directory \<longrightarrow>
            handle_request R A url fs = (InternalServerError IsADirectoryError, fs))
       \<and> (fs path = Some NoPermission \<longrightarrow>
            handle_request R A url fs = (InternalServerError PermissionError, fs))
       \<and> (fs path = Some Binary \<longrightarrow>
            handle_request R A url fs = (InternalServerError UnicodeDecodeError, fs))
       \<and> (\<forall>s e. fs path = Some (Text s) \<and> json_loads R s = Inl e \<longrightarrow>
            handle_request R A url fs = (InternalServerError e, fs))
       \<and> (\<forall>s obj. fs path = Some (Text s) \<and> json_loads R s = Inr obj \<longrightarrow>
            handle_request R A url fs = (Reply (jsonify R obj), fs))
       \<and> (os_path_exists fs path \<and> fst (load_json R A filename fs) = Inr (PyDict []) \<longrightarrow>
            (\<exists>s. fs path = Some (Text s) \<and> json_loads R s = Inr (PyDict [])))"
  unfolding assms(2)
  by (auto simp: metrics_reply [OF assms(1)] load_json_node os_path_exists_def
           split: option.splits node.splits)

theorem only_missing_file_is_recovered_witness:
  "handle_request flask_default (startup (str ''/srv/app'')) (str ''/api/serial'')
       [str ''/srv/app/results/logs/serial_metrics.json'' \<mapsto> Binary] =
     (InternalServerError UnicodeDecodeError,
      [str ''/srv/app/results/logs/serial_metrics.json'' \<mapsto> Binary])
   \<and> handle_request flask_default (startup (str ''/srv/app'')) (str ''/api/serial'')
       [str ''/srv/app/results/logs/serial_metrics.json'' \<mapsto> Directory] =
     (InternalServerError IsADirectoryError,
      [str ''/srv/app/results/logs/serial_metrics.json'' \<mapsto> Directory])
   \<and> handle_request flask_default (startup (str ''/srv/app'')) (str ''/api/serial'')
       [str ''/srv/app/results/logs/serial_metrics.json'' \<mapsto> NoPermission] =
     (InternalServerError PermissionError,
      [str ''/srv/app/results/logs/serial_metrics.json'' \<mapsto> NoPermission])
   \<and> handle_request flask_default (startup (str ''/srv/app'')) (str ''/api/serial'')
       [str ''/srv/app/results/logs/serial_metrics.json'' \<mapsto> Text (str ''{not valid}'')] =
     (InternalServerError JSONDecodeError,
      [str ''/srv/app/results/logs/serial_metrics.json'' \<mapsto> Text (str ''{not valid}'')])
   \<and> handle_request flask_default (startup (str ''/srv/app'')) (str ''/api/serial'') Map.empty =
     (Reply (jsonify flask_default (PyDict [])), Map.empty)"
proof -
  have r: "(str ''/api/serial'', str ''serial_metrics.json'') \<in> set metrics_routes"
    by (simp add: metrics_routes_def)
  have p: "str ''/srv/app/results/logs/serial_metrics.json'' =
      os_path_join (LOG_DIR (startup (str ''/srv/app''))) [str ''serial_metrics.json'']"
    by (simp add: startup_def os_path_join_def join2_def str_def)
  have bad: "json_loads flask_default (str ''{not valid}'') = Inl JSONDecodeError"
    by (simp add: json_eval)
  from only_missing_file_is_recovered
         [OF r p, of "[str ''/srv/app/results/logs/serial_metrics.json'' \<mapsto> Binary]"
            flask_default]
       only_missing_file_is_recovered
         [OF r p, of "[str ''/srv/app/results/logs/serial_metrics.json'' \<mapsto> Directory]"
            flask_default]
       only_missing_file_is_recovered
         [OF r p, of "[str ''/srv/app/results/logs/serial_metrics.json'' \<mapsto> NoPermission]"
            flask_default]
       only_missing_file_is_recovered
         [OF r p, of "[str ''/srv/app/results/logs/serial_metrics.json'' \<mapsto>
                        Text (str ''{not valid}'')]" flask_default]
       only_missing_file_is_recovered [OF r p, of Map.empty flask_default]
  show ?thesis by (simp add: os_path_exists_def bad)
qed




text \<open>
  C8. GET / does not depend on the results directory: on two file systems that agree
  on every path outside \<^verbatim>\<open>results\<close> (the metric files are all inside it) the
  replies to GET / are equal, and if the template is there and renders, both are HTTP 200
  of type text/html with the rendered template as the body.
\<close>

theorem index_ignores_results_directory:
  assumes "\<forall>path. \<not> under (os_path_join dir [str ''results'']) path \<longrightarrow> fs path = fs' path"
  shows "fst (handle_request R (startup dir) (str ''/'') fs) =
         fst (handle_request R (startup dir) (str ''/'') fs')
       \<and> (\<forall>source html.
            fs (os_path_join dir [str ''templates'', str ''index.html'']) = Some (Text source)
            \<and> jinja_render R source = Inr html \<longrightarrow>
            fst (handle_request R (startup dir) (str ''/'') fs') =
            Reply \<lparr>status = 200, mimetype = str ''text/html'', data = html\<rparr>)
       \<and> (\<forall>url filename. (url, filename) \<in> set metrics_routes \<longrightarrow>
            under (os_path_join dir [str ''results''])
              (os_path_join (LOG_DIR (startup dir)) [filename]))"
proof -
  from assms template_not_under_results [of dir]
  have same: "fs (os_path_join dir [str ''templates'', str ''index.html'']) =
      fs' (os_path_join dir [str ''templates'', str ''index.html''])"
    by blast
  have root: "root_path (startup dir) = dir"
    by (simp add: startup_def)
  show ?thesis
    using same metrics_under_results [of _ _ dir]
    by (auto simp: index_reply root)
qed

theorem index_ignores_results_directory_witness:
  \<open>fst (handle_request flask_default (startup (str ''/srv/app'')) (str ''/'')
          [str ''/srv/app/templates/index.html'' \<mapsto> Text (str ''<h1>Metrics</h1>'')]) =
     Reply \<lparr>status = 200, mimetype = str ''text/html'', data = str ''<h1>Metrics</h1>''\<rparr>
   \<and> fst (handle_request flask_default (startup (str ''/srv/app'')) (str ''/'')
          [str ''/srv/app/templates/index.html'' \<mapsto> Text (str ''<h1>Metrics</h1>''),
           str ''/srv/app/results/logs/serial_metrics.json'' \<mapsto> Text (str ''{not valid}''),
           str ''/srv/app/results/logs/compare_metrics.json'' \<mapsto> Directory]) =
     Reply \<lparr>status = 200, mimetype = str ''text/html'', data = str ''<h1>Metrics</h1>''\<rparr>\<close>
proof -
  let ?fs = "[str ''/srv/app/templates/index.html'' \<mapsto> Text (str ''<h1>Metrics</h1>'')]"
  let ?fs' = "[str ''/srv/app/templates/index.html'' \<mapsto> Text (str ''<h1>Metrics</h1>''),
           str ''/srv/app/results/logs/serial_metrics.json'' \<mapsto> Text (str ''{not valid}''),
           str ''/srv/app/results/logs/compare_metrics.json'' \<mapsto> Directory]"
  have p: "os_path_join (str ''/srv/app'') [str ''templates'', str ''index.html''] =
      str ''/srv/app/templates/index.html''"
    by (simp add: os_path_join_def join2_def str_def)
  have u1: "under (os_path_join (str ''/srv/app'') [str ''results''])
      (str ''/srv/app/results/logs/serial_metrics.json'')"
    and u2: "under (os_path_join (str ''/srv/app'') [str ''results''])
      (str ''/srv/app/results/logs/compare_metrics.json'')"
    by (simp_all add: under_def os_path_join_def join2_def str_def)
  have agree: "\<forall>path. \<not> under (os_path_join (str ''/srv/app'') [str ''results'']) path \<longrightarrow>
      ?fs path = ?fs' path"
    using u1 u2 by auto
  have rendered: "jinja_render flask_default (str ''<h1>Metrics</h1>'') =
      Inr (str ''<h1>Metrics</h1>'')"
    by (simp add: flask_default_def static_render_def str_def)
  note inst = index_ignores_results_directory [OF agree, of flask_default]
  from inst [THEN conjunct2, THEN conjunct1, rule_format,
      of "str ''<h1>Metrics</h1>''" "str ''<h1>Metrics</h1>''"] rendered
  have second: "fst (handle_request flask_default (startup (str ''/srv/app'')) (str ''/'') ?fs') =
      Reply \<lparr>status = 200, mimetype = str ''text/html'', data = str ''<h1>Metrics</h1>''\<rparr>"
    by (simp add: p)
  from trans [OF inst [THEN conjunct1] second] second show ?thesis by (rule conjI)
qed

text \<open>
  C9. No request changes the file system: whatever the URL and the files, the file
  system after the reply is the one before it. The views open files in mode
  \<^verbatim>\<open>"r"\<close> only, and \<open>py_open\<close> changes a file only in mode \<^verbatim>\<open>"w"\<close>.
\<close>

theorem requests_leave_files_unchanged:
  fixes R :: "'f runtime"
  shows "snd (handle_request R A url fs) = fs"
proof -
  have rt: "snd (render_template R A name fs) = fs" for name
    by (simp add: render_template_def Let_def py_open_def os_path_isfile_def
             split: option.splits node.splits sum.splits prod.splits)
  have views: "snd (view R A fs) = fs" if "view \<in> snd ` set url_map" for view :: "'f view"
    using that rt [of "str ''index.html''"]
    by (auto simp: url_map_def index_def serial_metrics_def parallel_metrics_def
          compare_metrics_def jsonify_view_def load_json_node split: prod.splits sum.splits)
  show ?thesis
  proof (cases "map_of (url_map :: (pystr \<times> 'f view) list) url")
    case None
    then show ?thesis by (simp add: handle_request_def)
  next
    case (Some view)
    then have "view \<in> snd ` set url_map"
      by (metis map_of_SomeD image_eqI snd_conv)
    from views [OF this] Some show ?thesis
      by (auto simp: handle_request_def split: prod.splits sum.splits)
  qed
qed



end
